theory Spec2Isabelle
  imports Main
begin

section \<open>The echo server of \<^verbatim>\<open>tests/fixtures/echo_server.py\<close>\<close>

text \<open>
  The program reads lines from standard input, accumulates them in a text buffer, hands
  every buffer that \<^verbatim>\<open>json.loads\<close> accepts to \<^verbatim>\<open>EchoMCPServer.handle_request\<close> and
  prints one JSON document per response. The embedding follows the source function by
  function. What the source takes from outside the repository is kept outside the model
  as well:
  \<^item> \<^verbatim>\<open>json.loads\<close> is a parameter \<open>loads\<close> of the main loop;
  \<^item> \<^verbatim>\<open>os.environ\<close> is a parameter \<open>env\<close>, a map from names to values;
  \<^item> standard input is the list of the strings that successive \<^verbatim>\<open>sys.stdin.readline()\<close>
    calls return;
  \<^item> standard output is the list of the documents given to
    \<^verbatim>\<open>print(json.dumps(...), flush=True)\<close>, one per printed line.

  An interrupt from the keyboard (the \<^verbatim>\<open>except KeyboardInterrupt\<close> clause of \<^verbatim>\<open>main\<close>) is no
  part of the input and is left out, and so are failures of the streams themselves.
\<close>

subsection \<open>Python values as \<^verbatim>\<open>json.loads\<close> returns them\<close>

text \<open>
  \<open>JNull\<close> is \<^verbatim>\<open>None\<close>, \<open>JObject\<close> a \<^verbatim>\<open>dict\<close> with its items in insertion order,
  \<open>JArray\<close> a \<^verbatim>\<open>list\<close>. A \<^verbatim>\<open>dict\<close> has every key once; a lookup in a list of items
  reads the first item with the key. A \<^verbatim>\<open>float\<close> is carried as its \<^verbatim>\<open>repr\<close>: the program
  never computes with one, it only prints it. A \<^verbatim>\<open>str\<close> is a \<open>string\<close>, one \<open>char\<close> per
  character, so that \<open>length\<close> is Python's \<^verbatim>\<open>len\<close>; in ASCII text, which is what the
  protocol exchanges, that is the number of bytes as well.
\<close>

datatype json =
    JNull
  | JBool bool
  | JInt int
  | JFloat string
  | JString string
  | JArray "json list"
  | JObject "(string \<times> json) list"

text \<open>\<^verbatim>\<open>type(v).__name__\<close>\<close>

fun type_name :: "json \<Rightarrow> string" where
  "type_name JNull = ''NoneType''"
| "type_name (JBool b) = ''bool''"
| "type_name (JInt i) = ''int''"
| "type_name (JFloat r) = ''float''"
| "type_name (JString s) = ''str''"
| "type_name (JArray xs) = ''list''"
| "type_name (JObject kvs) = ''dict''"

text \<open>
  The exceptions the handlers can meet, each with the text \<^verbatim>\<open>str(e)\<close> gives:
  \<^verbatim>\<open>.get\<close> on a value that is not a \<^verbatim>\<open>dict\<close>, and \<^verbatim>\<open>os.environ.get\<close> with a key that
  is not a \<^verbatim>\<open>str\<close>.
\<close>

datatype exn = AttributeError string | TypeError string

fun str_exn :: "exn \<Rightarrow> string" where
  "str_exn (AttributeError m) = m"
| "str_exn (TypeError m) = m"

definition squote :: char where
  "squote = CHR 0x27"

definition dquote :: char where
  "dquote = CHR 0x22"

text \<open>
  \<^verbatim>\<open>obj.get(key, default)\<close>: a lookup with a default on a \<^verbatim>\<open>dict\<close>, and
  \<^verbatim>\<open>AttributeError: 'list' object has no attribute 'get'\<close> (with the type's name) on
  anything else.
\<close>

definition dict_get :: "(string \<times> json) list \<Rightarrow> string \<Rightarrow> json \<Rightarrow> json" where
  "dict_get kvs key dflt = (case map_of kvs key of Some v \<Rightarrow> v | None \<Rightarrow> dflt)"

fun py_get :: "json \<Rightarrow> string \<Rightarrow> json \<Rightarrow> exn + json" where
  "py_get (JObject kvs) key dflt = Inr (dict_get kvs key dflt)"
| "py_get v key dflt =
     Inl (AttributeError
       ([squote] @ type_name v @ [squote] @ '' object has no attribute ''
          @ [squote] @ ''get'' @ [squote]))"

text \<open>
  \<^verbatim>\<open>os.environ.get(key, default)\<close>: the key is encoded first, which raises
  \<^verbatim>\<open>TypeError: str expected, not int\<close> (with the type's name) unless it is a \<^verbatim>\<open>str\<close>.
\<close>

fun environ_get :: "(string \<rightharpoonup> string) \<Rightarrow> json \<Rightarrow> string \<Rightarrow> exn + string" where
  "environ_get env (JString k) dflt =
     Inr (case env k of Some v \<Rightarrow> v | None \<Rightarrow> dflt)"
| "environ_get env key dflt =
     Inl (TypeError (''str expected, not '' @ type_name key))"

subsection \<open>Formatting a value inside an f-string\<close>

text \<open>\<^verbatim>\<open>str(i)\<close> for an integer: decimal digits, with a minus sign when negative.\<close>

definition digit_char :: "nat \<Rightarrow> char" where
  "digit_char d = char_of (48 + d)"

fun show_nat :: "nat \<Rightarrow> string" where
  "show_nat n =
     (if n < 10 then [digit_char n] else show_nat (n div 10) @ [digit_char (n mod 10)])"

declare show_nat.simps [simp del]

definition show_int :: "int \<Rightarrow> string" where
  "show_int i = (if i < 0 then CHR ''-'' # show_nat (nat (- i)) else show_nat (nat i))"

text \<open>
  \<^verbatim>\<open>repr(s)\<close> for a string: single quotes unless the string has a single quote and no
  double quote; the quote and the backslash are escaped, tab, newline and carriage return
  are written \<^verbatim>\<open>\t\<close>, \<^verbatim>\<open>\n\<close>, \<^verbatim>\<open>\r\<close>, and every other character that is not printable
  as \<^verbatim>\<open>\xhh\<close>. Below 256 the characters that are not printable are the control
  characters (0 to 31, 127 to 159), the no-break space 160 and the soft hyphen 173.
\<close>

definition hex_char :: "nat \<Rightarrow> char" where
  "hex_char d = (if d < 10 then char_of (48 + d) else char_of (87 + d))"

definition printable :: "char \<Rightarrow> bool" where
  "printable c =
     (let n = of_char c :: nat
      in 32 \<le> n \<and> n \<noteq> 173 \<and> (n < 127 \<or> 160 < n))"

definition repr_char :: "char \<Rightarrow> char \<Rightarrow> string" where
  "repr_char q c =
     (if c = q \<or> c = CHR 0x5C then [CHR 0x5C, c]
      else if c = CHR 0x09 then [CHR 0x5C, CHR ''t'']
      else if c = CHR 0x0A then [CHR 0x5C, CHR ''n'']
      else if c = CHR 0x0D then [CHR 0x5C, CHR ''r'']
      else if printable c then [c]
      else [CHR 0x5C, CHR ''x'', hex_char (of_char c div 16), hex_char (of_char c mod 16)])"

definition repr_str :: "string \<Rightarrow> string" where
  "repr_str s =
     (let q = (if squote \<in> set s \<and> dquote \<notin> set s then dquote else squote)
      in [q] @ concat (map (repr_char q) s) @ [q])"

text \<open>\<^verbatim>\<open>sep.join(xs)\<close>\<close>

fun join :: "string \<Rightarrow> string list \<Rightarrow> string" where
  "join sep [] = []"
| "join sep [x] = x"
| "join sep (x # y # ys) = x @ sep @ join sep (y # ys)"

text \<open>\<^verbatim>\<open>repr(v)\<close>, which is what a list or a dict shows of its elements.\<close>

primrec py_repr :: "json \<Rightarrow> string" where
  "py_repr JNull = ''None''"
| "py_repr (JBool b) = (if b then ''True'' else ''False'')"
| "py_repr (JInt i) = show_int i"
| "py_repr (JFloat r) = r"
| "py_repr (JString s) = repr_str s"
| "py_repr (JArray xs) = ''['' @ join '', '' (map py_repr xs) @ '']''"
| "py_repr (JObject kvs) =
     ''{'' @ join '', '' (map (\<lambda>(k, r). repr_str k @ '': '' @ r) (map (map_prod id py_repr) kvs))
       @ ''}''"

text \<open>\<^verbatim>\<open>str(v)\<close>, which is what \<^verbatim>\<open>f"{v}"\<close> inserts: a string as it is, the rest as \<^verbatim>\<open>repr\<close>.\<close>

definition py_str :: "json \<Rightarrow> string" where
  "py_str v = (case v of JString s \<Rightarrow> s | _ \<Rightarrow> py_repr v)"

subsection \<open>The server object and its responses\<close>

text \<open>\<^verbatim>\<open>EchoMCPServer\<close> has one attribute, set to 0 by \<^verbatim>\<open>__init__\<close>.\<close>

record server =
  message_id :: int

definition init_server :: server where
  "init_server = \<lparr>message_id = 0\<rparr>"

text \<open>
  \<^verbatim>\<open>send_response\<close> and \<^verbatim>\<open>send_error\<close> build a dict and print it; the functions below
  give the dict, and the caller appends it to the output.
\<close>

definition send_response :: "json \<Rightarrow> json \<Rightarrow> json" where
  "send_response request_id result =
     JObject [(''jsonrpc'', JString ''2.0''), (''id'', request_id), (''result'', result)]"

definition send_error :: "json \<Rightarrow> int \<Rightarrow> string \<Rightarrow> json" where
  "send_error request_id code message =
     JObject [(''jsonrpc'', JString ''2.0''), (''id'', request_id),
       (''error'', JObject [(''code'', JInt code), (''message'', JString message)])]"

text \<open>The result of \<^verbatim>\<open>initialize\<close>, as the source writes it.\<close>

definition echo_tool :: json where
  "echo_tool = JObject
     [(''name'', JString ''echo''),
      (''description'', JString ''Echoes back the input message''),
      (''inputSchema'', JObject
         [(''type'', JString ''object''),
          (''properties'', JObject
             [(''message'', JObject
                 [(''type'', JString ''string''),
                  (''description'', JString ''The message to echo'')])]),
          (''required'', JArray [JString ''message''])])]"

definition ping_tool :: json where
  "ping_tool = JObject
     [(''name'', JString ''ping''),
      (''description'', JString (''Returns '' @ [squote] @ ''pong'' @ [squote])),
      (''inputSchema'', JObject
         [(''type'', JString ''object''),
          (''properties'', JObject [])])]"

definition get_env_tool :: json where
  "get_env_tool = JObject
     [(''name'', JString ''get_env''),
      (''description'', JString ''Get an environment variable''),
      (''inputSchema'', JObject
         [(''type'', JString ''object''),
          (''properties'', JObject
             [(''name'', JObject
                 [(''type'', JString ''string''),
                  (''description'', JString ''Environment variable name'')])]),
          (''required'', JArray [JString ''name''])])]"

definition initialize_result :: json where
  "initialize_result = JObject
     [(''protocolVersion'', JString ''1.0''),
      (''serverInfo'', JObject
         [(''name'', JString ''echo-test-server-python''),
          (''version'', JString ''1.0.0'')]),
      (''capabilities'', JObject
         [(''tools'', JObject
             [(''available'', JArray [echo_tool, ping_tool, get_env_tool])])])]"

subsection \<open>\<^verbatim>\<open>EchoMCPServer.handle_request\<close>\<close>

text \<open>
  How a block of statements ends: it falls through, an \<^verbatim>\<open>Exception\<close> leaves it, or
  \<^verbatim>\<open>sys.exit(n)\<close> raises \<^verbatim>\<open>SystemExit\<close>, which is not an \<^verbatim>\<open>Exception\<close> and passes
  every \<^verbatim>\<open>except Exception\<close> clause.
\<close>

datatype outcome = Returned | Raised exn | SystemExit int

text \<open>
  The \<^verbatim>\<open>tools/call\<close> branch of the \<^verbatim>\<open>try\<close> block: the documents it prints and how it
  ends. \<^verbatim>\<open>args\<close> is read only where the source reads it.
\<close>

definition tools_call :: "(string \<rightharpoonup> string) \<Rightarrow> json \<Rightarrow> json \<Rightarrow> json list \<times> outcome" where
  "tools_call env request_id params =
     (case py_get params ''name'' JNull of
        Inl e \<Rightarrow> ([], Raised e)
      | Inr tool_name \<Rightarrow>
     (case py_get params ''arguments'' (JObject []) of
        Inl e \<Rightarrow> ([], Raised e)
      | Inr args \<Rightarrow>
          if tool_name = JString ''echo'' then
            (case py_get args ''message'' (JString []) of
               Inl e \<Rightarrow> ([], Raised e)
             | Inr message \<Rightarrow>
            (case environ_get env (JString ''ECHO_PREFIX'') ''[ECHO]'' of
               Inl e \<Rightarrow> ([], Raised e)
             | Inr prefix \<Rightarrow>
                 ([send_response request_id
                     (JObject [(''output'', JString (prefix @ '' '' @ py_str message))])],
                  Returned)))
          else if tool_name = JString ''ping'' then
            ([send_response request_id (JObject [(''output'', JString ''pong'')])], Returned)
          else if tool_name = JString ''get_env'' then
            (case py_get args ''name'' (JString []) of
               Inl e \<Rightarrow> ([], Raised e)
             | Inr var_name \<Rightarrow>
            (case environ_get env var_name (''<'' @ py_str var_name @ '' not set>'') of
               Inl e \<Rightarrow> ([], Raised e)
             | Inr val \<Rightarrow>
                 ([send_response request_id
                     (JObject [(''output'', JString (py_str var_name @ ''='' @ val))])],
                  Returned)))
          else
            ([send_error request_id (- 32601) (''Unknown tool: '' @ py_str tool_name)],
             Returned)))"

text \<open>The body of the \<^verbatim>\<open>try\<close> block.\<close>

definition handle_request_try :: "(string \<rightharpoonup> string) \<Rightarrow> json \<Rightarrow> json list \<times> outcome" where
  "handle_request_try env request =
     (case py_get request ''id'' JNull of
        Inl e \<Rightarrow> ([], Raised e)
      | Inr request_id \<Rightarrow>
     (case py_get request ''method'' JNull of
        Inl e \<Rightarrow> ([], Raised e)
      | Inr method \<Rightarrow>
     (case py_get request ''params'' (JObject []) of
        Inl e \<Rightarrow> ([], Raised e)
      | Inr params \<Rightarrow>
          if method = JString ''initialize'' then
            ([send_response request_id initialize_result], Returned)
          else if method = JString ''tools/call'' then
            tools_call env request_id params
          else if method = JString ''shutdown'' then
            ([send_response request_id (JObject [])], SystemExit 0)
          else
            ([send_error request_id (- 32601) (''Method not found: '' @ py_str method)],
             Returned))))"

text \<open>
  The whole method: the \<^verbatim>\<open>except Exception as e\<close> clause evaluates
  \<^verbatim>\<open>request.get("id")\<close> again before it sends the internal error, and an exception
  raised there leaves the method. The method returns the server object with it, which no
  statement of the source assigns to.
\<close>

definition handle_request :: "server \<Rightarrow> (string \<rightharpoonup> string) \<Rightarrow> json \<Rightarrow> server \<times> json list \<times> outcome" where
  "handle_request self env request =
     (case handle_request_try env request of
        (out, Raised e) \<Rightarrow>
          (case py_get request ''id'' JNull of
             Inl e' \<Rightarrow> (self, out, Raised e')
           | Inr request_id \<Rightarrow>
               (self,
                out @ [send_error request_id (- 32603) (''Internal error: '' @ str_exn e)],
                Returned))
      | (out, ending) \<Rightarrow> (self, out, ending))"

subsection \<open>\<^verbatim>\<open>main\<close>\<close>

text \<open>
  What \<^verbatim>\<open>json.loads(buffer)\<close> does: it returns a value, raises \<^verbatim>\<open>json.JSONDecodeError\<close>,
  or raises something else (\<^verbatim>\<open>RecursionError\<close> on deep nesting, for one), which only the
  outer \<^verbatim>\<open>except Exception\<close> of \<^verbatim>\<open>main\<close> catches.
\<close>

datatype parse_result = Parsed json | JSONDecodeError | Fault string

text \<open>
  The state of the process: the server object and \<^verbatim>\<open>buffer\<close>, the two local variables
  of \<^verbatim>\<open>main\<close>; what has been written to standard output and to standard error; and
  \<open>dispatched\<close>, a history variable that is not in the program: the arguments of the calls
  \<^verbatim>\<open>server.handle_request(request)\<close> made so far, in order.
\<close>

record process =
  server_obj :: server
  buffer :: string
  stdout :: "json list"
  stderr :: "string list"
  dispatched :: "json list"

text \<open>The document printed when the buffer is given up: it has no \<^verbatim>\<open>id\<close> key.\<close>

definition parse_error_response :: json where
  "parse_error_response =
     JObject [(''jsonrpc'', JString ''2.0''),
       (''error'', JObject [(''code'', JInt (- 32700)), (''message'', JString ''Parse error'')])]"

definition server_error :: "string \<Rightarrow> string" where
  "server_error m = ''Server error: '' @ m @ [CHR 0x0A]"

text \<open>
  One turn of the \<^verbatim>\<open>while True\<close> loop after a line was read: the new state, and
  \<open>Some n\<close> when the process exits with status \<open>n\<close> in this turn.
\<close>

definition loop_body :: "(string \<Rightarrow> parse_result) \<Rightarrow> (string \<rightharpoonup> string) \<Rightarrow> process \<Rightarrow> string \<Rightarrow> process \<times> int option" where
  "loop_body loads env st line =
     (let buf = buffer st @ line in
      case loads buf of
        Parsed request \<Rightarrow>
          (case handle_request (server_obj st) env request of
             (srv, out, ending) \<Rightarrow>
               let st' = st\<lparr>server_obj := srv, buffer := [], stdout := stdout st @ out,
                           dispatched := dispatched st @ [request]\<rparr>
               in (case ending of
                     Returned \<Rightarrow> (st', None)
                   | SystemExit n \<Rightarrow> (st', Some n)
                   | Raised e \<Rightarrow>
                       (st'\<lparr>stderr := stderr st' @ [server_error (str_exn e)]\<rparr>, Some 1)))
      | JSONDecodeError \<Rightarrow>
          if length buf > 10000
          then (st\<lparr>buffer := [], stdout := stdout st @ [parse_error_response]\<rparr>, None)
          else (st\<lparr>buffer := buf\<rparr>, None)
      | Fault m \<Rightarrow>
          (st\<lparr>buffer := buf, stderr := stderr st @ [server_error m]\<rparr>, Some 1))"

text \<open>
  The loop over the lines that \<^verbatim>\<open>readline\<close> returns. An empty string is the end of the
  input, and so is the end of the list: the loop is left, \<^verbatim>\<open>main\<close> returns and the
  process exits with status 0.
\<close>

fun main_loop :: "(string \<Rightarrow> parse_result) \<Rightarrow> (string \<rightharpoonup> string) \<Rightarrow> process \<Rightarrow> string list \<Rightarrow> process \<times> int" where
  "main_loop loads env st [] = (st, 0)"
| "main_loop loads env st (line # rest) =
     (if line = [] then (st, 0)
      else case loop_body loads env st line of
             (st', None) \<Rightarrow> main_loop loads env st' rest
           | (st', Some n) \<Rightarrow> (st', n))"

definition init_process :: process where
  "init_process =
     \<lparr>server_obj = init_server, buffer = [], stdout = [],
      stderr = [''Python Echo MCP Server started'' @ [CHR 0x0A]], dispatched = []\<rparr>"

definition main :: "(string \<Rightarrow> parse_result) \<Rightarrow> (string \<rightharpoonup> string) \<Rightarrow> string list \<Rightarrow> process \<times> int" where
  "main loads env lines = main_loop loads env init_process lines"

subsection \<open>Reading a printed document\<close>


definition is_object :: "json \<Rightarrow> bool" where
  "is_object d = (case d of JObject kvs \<Rightarrow> True | _ \<Rightarrow> False)"



subsection \<open>Sample input\<close>

text \<open>
  A few input lines, and \<^verbatim>\<open>json.loads\<close> on the texts the examples below give it:
  \<open>sample_loads\<close> returns what \<^verbatim>\<open>json.loads\<close> returns on each of the complete documents
  listed, and raises \<^verbatim>\<open>JSONDecodeError\<close> on the rest, which the examples use only at
  texts that \<^verbatim>\<open>json.loads\<close> rejects as well (an unfinished object, a run of opening
  braces).
\<close>

definition newline :: string where
  "newline = [CHR 0x0A]"

definition array_line :: string where
  "array_line = ''[]'' @ newline"

definition ping_line :: string where
  \<open>ping_line =
     ''{"jsonrpc": "2.0", "id": 1, "method": "tools/call", "params": {"name": "ping"}}''
       @ newline\<close>

definition ping_request :: json where
  "ping_request =
     JObject [(''jsonrpc'', JString ''2.0''), (''id'', JInt 1), (''method'', JString ''tools/call''),
       (''params'', JObject [(''name'', JString ''ping'')])]"

definition shutdown_line :: string where
  \<open>shutdown_line = ''{"jsonrpc": "2.0", "id": "bye", "method": "shutdown"}'' @ newline\<close>

definition shutdown_request :: json where
  "shutdown_request =
     JObject [(''jsonrpc'', JString ''2.0''), (''id'', JString ''bye''),
       (''method'', JString ''shutdown'')]"

definition split_line1 :: string where
  \<open>split_line1 = ''{"jsonrpc": "2.0", "id": 7,'' @ newline\<close>

definition split_line2 :: string where
  \<open>split_line2 = ''"method": "tools/call", "params": {"name": "ping"}}'' @ newline\<close>

definition split_request :: json where
  "split_request =
     JObject [(''jsonrpc'', JString ''2.0''), (''id'', JInt 7), (''method'', JString ''tools/call''),
       (''params'', JObject [(''name'', JString ''ping'')])]"

definition sample_loads :: "string \<Rightarrow> parse_result" where
  "sample_loads text =
     (if text = array_line then Parsed (JArray [])
      else if text = ping_line then Parsed ping_request
      else if text = shutdown_line then Parsed shutdown_request
      else if text = split_line1 @ split_line2 then Parsed split_request
      else JSONDecodeError)"

definition long_line :: string where
  "long_line = replicate 10000 CHR ''{'' @ newline"











section \<open>The dispatcher on one message\<close>

lemma handle_request_fst: "fst (handle_request self env request) = self"
  by (simp add: handle_request_def split: prod.splits outcome.splits sum.splits)

lemma handle_request_self:
  "snd (handle_request self env request) = snd (handle_request self' env request)"
  by (simp add: handle_request_def split: prod.splits outcome.splits sum.splits)

text \<open>
  On a \<^verbatim>\<open>dict\<close> every \<^verbatim>\<open>request.get\<close> succeeds, so the \<^verbatim>\<open>except\<close> clause always sends
  its error.
\<close>

lemma handle_request_object:
  "handle_request self env (JObject kvs) =
     (case handle_request_try env (JObject kvs) of
        (out, Raised e) \<Rightarrow>
          (self,
           out @ [send_error (dict_get kvs ''id'' JNull) (- 32603)
                    (''Internal error: '' @ str_exn e)],
           Returned)
      | (out, ending) \<Rightarrow> (self, out, ending))"
  by (simp add: handle_request_def split: prod.splits outcome.splits)






text \<open>
  Anything else raises in the \<^verbatim>\<open>try\<close> block and again in the \<^verbatim>\<open>except\<close> clause, and
  nothing is printed.
\<close>

lemma handle_request_not_object:
  "\<not> is_object m \<Longrightarrow>
     handle_request self env m =
       (self, [], Raised (AttributeError
          ([squote] @ type_name m @ [squote] @ '' object has no attribute ''
             @ [squote] @ ''get'' @ [squote])))"
  by (cases m) (simp_all add: is_object_def handle_request_def handle_request_try_def)

section \<open>The sample input\<close>

lemma sample_loads_simps:
  "sample_loads array_line = Parsed (JArray [])"
  "sample_loads ping_line = Parsed ping_request"
  "sample_loads shutdown_line = Parsed shutdown_request"
  "sample_loads (split_line1 @ split_line2) = Parsed split_request"
  "sample_loads split_line1 = JSONDecodeError"
  by (simp_all add: sample_loads_def array_line_def ping_line_def shutdown_line_def
      split_line1_def split_line2_def newline_def)

lemma sample_lines_nonempty:
  "array_line \<noteq> []" "ping_line \<noteq> []" "shutdown_line \<noteq> []"
  "split_line1 \<noteq> []" "split_line2 \<noteq> []" "long_line \<noteq> []"
  by (simp_all add: array_line_def ping_line_def shutdown_line_def
      split_line1_def split_line2_def long_line_def newline_def)








section \<open>Responses follow the requests\<close>









section \<open>A message that is no object\<close>

text \<open>
  For an object the \<^verbatim>\<open>except\<close> clause does what it is there for: whatever the \<^verbatim>\<open>try\<close>
  block raised is answered with the error \<open>-32603\<close> under the id of the request, and
  the method returns.
\<close>

lemma internal_error_on_object:
  assumes "handle_request_try env (JObject kvs) = (out, Raised e)"
  shows "handle_request self env (JObject kvs) =
           (self,
            out @ [send_error (dict_get kvs ''id'' JNull) (- 32603)
                     (''Internal error: '' @ str_exn e)],
            Returned)"
  using assms by (simp add: handle_request_object)

text \<open>
  Claim C2 says that every failure while a parsed message is handled is caught at the
  dispatcher, answered with the error \<open>-32603\<close> (with a null id when the request has none
  to recover) and survived by the process. The \<^verbatim>\<open>except\<close> clause of \<^verbatim>\<open>handle_request\<close> is
  written for that, but it calls \<^verbatim>\<open>request.get("id")\<close> itself: on the input line \<^verbatim>\<open>[]\<close>,
  which is valid JSON and no object, that call raises again, the exception leaves
  \<^verbatim>\<open>handle_request\<close>, nothing is printed, and \<^verbatim>\<open>main\<close> writes the message to standard
  error and exits with status 1 without reading the request on the next line.
\<close>

theorem non_object_message_ends_process:
  "handle_request init_server Map.empty (JArray []) =
     (init_server, [],
      Raised (AttributeError ([squote] @ ''list'' @ [squote] @ '' object has no attribute ''
                @ [squote] @ ''get'' @ [squote]))) \<and>
   main sample_loads Map.empty [array_line, ping_line] =
     (init_process\<lparr>stderr := stderr init_process @
         [server_error ([squote] @ ''list'' @ [squote] @ '' object has no attribute ''
                @ [squote] @ ''get'' @ [squote])],
        dispatched := [JArray []]\<rparr>, 1)"
  by (simp add: handle_request_not_object is_object_def main_def loop_body_def
      sample_loads_simps sample_lines_nonempty init_process_def)

section \<open>The reader\<close>





section \<open>The methods and the tools\<close>











section \<open>The session state\<close>

lemma loop_body_server: "server_obj (fst (loop_body loads env st line)) = server_obj st"
proof (cases "loads (buffer st @ line)")
  case (Parsed request)
  obtain srv out ending where h: "handle_request (server_obj st) env request = (srv, out, ending)"
    by (cases "handle_request (server_obj st) env request") auto
  with handle_request_fst [of "server_obj st" env request] have "srv = server_obj st" by simp
  with Parsed h show ?thesis
    by (cases ending) (simp_all add: loop_body_def)
next
  case JSONDecodeError
  then show ?thesis by (simp add: loop_body_def)
next
  case (Fault m)
  then show ?thesis by (simp add: loop_body_def)
qed

lemma main_loop_server: "server_obj (fst (main_loop loads env st lines)) = server_obj st"
proof (induction lines arbitrary: st)
  case Nil
  show ?case by simp
next
  case (Cons line rest)
  obtain st1 x where b: "loop_body loads env st line = (st1, x)"
    by (cases "loop_body loads env st line") auto
  with loop_body_server [of loads env st line] have s: "server_obj st1 = server_obj st" by simp
  show ?case
  proof (cases x)
    case None
    with b s Cons.IH [of st1] show ?thesis by simp
  next
    case (Some n)
    with b s show ?thesis by simp
  qed
qed

text \<open>
  Claim C9. Handling a message leaves the session state as it was: \<^verbatim>\<open>handle_request\<close>
  returns the server object it was given, for any message; what it prints and how it ends
  do not depend on that object, so \<^verbatim>\<open>message_id\<close> is never read; the loop of \<^verbatim>\<open>main\<close>
  keeps the server object through any input, and after any run of \<^verbatim>\<open>main\<close> the counter
  \<^verbatim>\<open>message_id\<close> is still 0. The server object has no other attribute.
\<close>

theorem dispatch_leaves_session_state:
  "fst (handle_request self env request) = self \<and>
   snd (handle_request self env request) = snd (handle_request self' env request) \<and>
   server_obj (fst (main_loop loads env st lines)) = server_obj st \<and>
   message_id (server_obj (fst (main loads env lines))) = 0"
  by (simp add: handle_request_fst handle_request_self [of self env request self']
      main_loop_server main_def init_process_def init_server_def del: main_loop.simps)

end
